theory Spec2Isabelle
  imports Complex_Main "HOL-Library.Word" "HOL-Library.Monad_Syntax"
begin

section \<open>JavaScript values\<close>

text \<open>
  The functions verified here live in \<^verbatim>\<open>src/App.jsx\<close>: the numeric coercer \<^verbatim>\<open>num\<close>,
  the row normalizer \<^verbatim>\<open>normalizePortfolioRow\<close> and the data hook \<^verbatim>\<open>useApi\<close>. They
  take whatever \<^verbatim>\<open>response.json()\<close> produced, so the value type below is JSON plus
  \<^verbatim>\<open>undefined\<close> (what reading a missing property gives).

  A JavaScript string is a sequence of 16-bit code units; the regular expression in
  \<^verbatim>\<open>num\<close> has no \<^verbatim>\<open>u\<close> flag and works on code units too.
\<close>

type_synonym jschar = "16 word"
type_synonym jsstring = "jschar list"

definition js :: "string \<Rightarrow> jsstring" where
  "js s = map of_char s"

text \<open>
  A Number is a binary64 value. \<open>Fin q\<close> is the finite value \<open>q\<close>, with \<open>Fin 0\<close> for
  \<open>+0\<close>; \<open>NegZero\<close> is \<open>-0\<close>.
\<close>

datatype number = Fin rat | NegZero | PosInf | NegInf | NaN

text \<open>
  An object is the list of its own properties, each key once (\<^verbatim>\<open>JSON.parse\<close> has
  already resolved duplicate keys). The property names read by the code are ASCII
  identifiers, so keys are plain strings.
\<close>

datatype jsval =
    JUndefined
  | JNull
  | JBool bool
  | JNum number
  | JStr jsstring
  | JArr "jsval list"
  | JObj "(string \<times> jsval) list"

type_synonym object = "(string \<times> jsval) list"

text \<open>
  Reading \<^verbatim>\<open>s.key\<close>: the own property, else \<^verbatim>\<open>undefined\<close>. None of the names read
  by the code is a property of \<^verbatim>\<open>Object.prototype\<close>.
\<close>

definition Get :: "object \<Rightarrow> string \<Rightarrow> jsval" where
  "Get s k = (case map_of s k of None \<Rightarrow> JUndefined | Some v \<Rightarrow> v)"

definition isNaN :: "number \<Rightarrow> bool" where
  "isNaN n \<longleftrightarrow> n = NaN"

definition isFinite :: "number \<Rightarrow> bool" where
  "isFinite n \<longleftrightarrow> n \<noteq> NaN \<and> n \<noteq> PosInf \<and> n \<noteq> NegInf"

text \<open>The operand test of \<^verbatim>\<open>||\<close> and \<^verbatim>\<open>!\<close>.\<close>

definition ToBoolean :: "jsval \<Rightarrow> bool" where
  "ToBoolean v =
     (case v of
        JUndefined \<Rightarrow> False
      | JNull \<Rightarrow> False
      | JBool b \<Rightarrow> b
      | JNum n \<Rightarrow> n \<noteq> Fin 0 \<and> n \<noteq> NegZero \<and> n \<noteq> NaN
      | JStr s \<Rightarrow> s \<noteq> []
      | JArr _ \<Rightarrow> True
      | JObj _ \<Rightarrow> True)"

text \<open>\<^verbatim>\<open>a || b\<close> and \<^verbatim>\<open>a ?? b\<close>; both operands are pure reads here.\<close>

definition logical_or :: "jsval \<Rightarrow> jsval \<Rightarrow> jsval" where
  "logical_or a b = (if ToBoolean a then a else b)"

definition nullish :: "jsval \<Rightarrow> jsval \<Rightarrow> jsval" where
  "nullish a b = (if a = JNull \<or> a = JUndefined then b else a)"

subsection \<open>Conversion to string\<close>

text \<open>
  \<^verbatim>\<open>Number::toString\<close> is left uninterpreted: \<^verbatim>\<open>num\<close> tests
  \<^verbatim>\<open>typeof v === 'number'\<close> before it calls \<^verbatim>\<open>String(v)\<close>, and nothing proved below
  depends on the digits a number prints as.
\<close>

definition NumberToString :: "number \<Rightarrow> jsstring" where
  "NumberToString = undefined"

fun join_comma :: "jsstring list \<Rightarrow> jsstring" where
  "join_comma [] = []"
| "join_comma [x] = x"
| "join_comma (x # y # ys) = x @ 44 # join_comma (y # ys)"

fun sequence :: "'a option list \<Rightarrow> 'a list option" where
  "sequence [] = Some []"
| "sequence (None # _) = None"
| "sequence (Some x # xs) = (case sequence xs of None \<Rightarrow> None | Some ys \<Rightarrow> Some (x # ys))"

text \<open>
  \<^verbatim>\<open>String(v)\<close>, with \<open>None\<close> for a thrown \<^verbatim>\<open>TypeError\<close>. An array joins its elements
  with commas, \<^verbatim>\<open>null\<close> and \<^verbatim>\<open>undefined\<close> elements printing as nothing. A parsed JSON
  object inherits \<^verbatim>\<open>Object.prototype.toString\<close> and prints as \<^verbatim>\<open>[object Object]\<close>,
  unless it has an own property named \<^verbatim>\<open>toString\<close>: that value is never callable,
  \<^verbatim>\<open>valueOf\<close> returns no primitive either, and the conversion throws.
\<close>

fun ToString :: "jsval \<Rightarrow> jsstring option" where
  "ToString JUndefined = Some (js ''undefined'')"
| "ToString JNull = Some (js ''null'')"
| "ToString (JBool b) = Some (if b then js ''true'' else js ''false'')"
| "ToString (JNum n) = Some (NumberToString n)"
| "ToString (JStr s) = Some s"
| "ToString (JArr xs) =
     map_option join_comma
       (sequence (map (\<lambda>x. if x = JUndefined \<or> x = JNull then Some [] else ToString x) xs))"
| "ToString (JObj ps) =
     (if ''toString'' \<in> fst ` set ps then None else Some (js ''[object Object]''))"

section \<open>Decimal text to binary64\<close>

text \<open>
  \<^verbatim>\<open>Number(cleaned)\<close> rounds the mathematical value of a literal to the nearest
  binary64 value, ties to the even significand. The value is held as a fraction
  \<open>a / b\<close> of naturals; \<open>floor_log2\<close> is its binary exponent, and the unit in the last
  place is \<open>2 ^ s\<close> with \<open>s = max e (- 1022) - 52\<close> (subnormals share the exponent
  \<open>- 1022\<close>). A magnitude of \<open>2 ^ 1024\<close> or more, before or after rounding, is an
  infinity; a magnitude that rounds to nothing is a zero of the literal's sign. The
  exact value is rounded, as current engines do (the standard also allows an engine to
  cut a literal after its twentieth significant digit first).
\<close>

fun bit_length_from :: "nat \<Rightarrow> nat \<Rightarrow> nat" where
  "bit_length_from acc n = (if n = 0 then acc else bit_length_from (acc + 1) (n div 2))"

declare bit_length_from.simps [simp del]

definition bit_length :: "nat \<Rightarrow> nat" where
  "bit_length n = bit_length_from 0 n"

definition pow2 :: "int \<Rightarrow> rat" where
  "pow2 k = (if 0 \<le> k then 2 ^ nat k else 1 / 2 ^ nat (- k))"

definition floor_log2 :: "nat \<Rightarrow> nat \<Rightarrow> int" where
  "floor_log2 a b =
     (let k = int (bit_length a) - int (bit_length b)
      in if (if 0 \<le> k then 2 ^ nat k * b \<le> a else b \<le> 2 ^ nat (- k) * a) then k else k - 1)"

definition round_half_even :: "nat \<Rightarrow> nat \<Rightarrow> nat" where
  "round_half_even a b =
     (let q = a div b; r = a mod b
      in if 2 * r < b then q
         else if b < 2 * r then q + 1
         else if even q then q else q + 1)"

definition signed_zero :: "bool \<Rightarrow> number" where
  "signed_zero neg = (if neg then NegZero else Fin 0)"

definition signed_infinity :: "bool \<Rightarrow> number" where
  "signed_infinity neg = (if neg then NegInf else PosInf)"

definition round_at :: "bool \<Rightarrow> nat \<Rightarrow> nat \<Rightarrow> int \<Rightarrow> number" where
  "round_at neg a b s =
     (let m = (if 0 \<le> s then round_half_even a (b * 2 ^ nat s)
               else round_half_even (a * 2 ^ nat (- s)) b)
      in if m = 0 then signed_zero neg
         else if 2 ^ 1024 \<le> of_nat m * pow2 s then signed_infinity neg
         else Fin ((if neg then - 1 else 1) * of_nat m * pow2 s))"

definition nearestDouble :: "bool \<Rightarrow> nat \<Rightarrow> nat \<Rightarrow> number" where
  "nearestDouble neg a b =
     (if a = 0 then signed_zero neg
      else if 2 ^ 1024 * b \<le> a then signed_infinity neg
      else round_at neg a b (max (floor_log2 a b) (- 1022) - 52))"

definition decimal :: "bool \<Rightarrow> nat \<Rightarrow> int \<Rightarrow> number" where
  "decimal neg m e =
     (if 0 \<le> e then nearestDouble neg (m * 10 ^ nat e) 1
      else nearestDouble neg m (10 ^ nat (- e)))"

section \<open>String to number\<close>

text \<open>
  \<^verbatim>\<open>Number(string)\<close> follows the \<^verbatim>\<open>StringNumericLiteral\<close> grammar of ECMAScript:
  white space is trimmed, the empty string is \<open>+0\<close>, an unsigned \<^verbatim>\<open>0x\<close>, \<^verbatim>\<open>0o\<close> or
  \<^verbatim>\<open>0b\<close> integer is read in its radix, and everything else must be an optionally
  signed \<^verbatim>\<open>Infinity\<close> or decimal literal
  (\<^verbatim>\<open>digits . digits? exp?\<close>, \<^verbatim>\<open>. digits exp?\<close>, \<^verbatim>\<open>digits exp?\<close>), or the result is
  \<^verbatim>\<open>NaN\<close>.
\<close>

definition is_digit :: "jschar \<Rightarrow> bool" where
  "is_digit c \<longleftrightarrow> 48 \<le> c \<and> c \<le> 57"

definition digit_value :: "jschar \<Rightarrow> nat" where
  "digit_value c = unat c - 48"

definition digits_value :: "jsstring \<Rightarrow> nat" where
  "digits_value ds = foldl (\<lambda>n c. 10 * n + digit_value c) 0 ds"

definition is_white_space :: "jschar \<Rightarrow> bool" where
  "is_white_space c \<longleftrightarrow>
     c \<in> {0x9, 0xA, 0xB, 0xC, 0xD, 0x20, 0xA0, 0x1680, 0x2028, 0x2029, 0x202F, 0x205F,
          0x3000, 0xFEFF}
     \<or> (0x2000 \<le> c \<and> c \<le> 0x200A)"

definition trim :: "jsstring \<Rightarrow> jsstring" where
  "trim s = rev (dropWhile is_white_space (rev (dropWhile is_white_space s)))"

definition radix_digit :: "nat \<Rightarrow> jschar \<Rightarrow> nat option" where
  "radix_digit radix c =
     (let v = (if 48 \<le> c \<and> c \<le> 57 then unat c - 48
               else if 97 \<le> c \<and> c \<le> 102 then unat c - 87
               else if 65 \<le> c \<and> c \<le> 70 then unat c - 55
               else 16)
      in if v < radix then Some v else None)"

fun radix_value :: "nat \<Rightarrow> nat \<Rightarrow> jsstring \<Rightarrow> nat option" where
  "radix_value radix acc [] = Some acc"
| "radix_value radix acc (c # cs) =
     (case radix_digit radix c of
        None \<Rightarrow> None
      | Some v \<Rightarrow> radix_value radix (radix * acc + v) cs)"

definition NonDecimalIntegerLiteral :: "jsstring \<Rightarrow> number option" where
  "NonDecimalIntegerLiteral t =
     (case t of
        z # p # ds \<Rightarrow>
          (let radix = (if p = 120 \<or> p = 88 then 16
                        else if p = 111 \<or> p = 79 then 8
                        else if p = 98 \<or> p = 66 then 2 else 0)
           in if z = 48 \<and> radix \<noteq> 0
              then Some (if ds = [] then NaN
                         else case radix_value radix 0 ds of
                                None \<Rightarrow> NaN
                              | Some n \<Rightarrow> nearestDouble False n 1)
              else None)
      | _ \<Rightarrow> None)"

definition SignedInteger :: "jsstring \<Rightarrow> int option" where
  "SignedInteger ds =
     (let neg = (case ds of c # _ \<Rightarrow> c = 45 | [] \<Rightarrow> False);
          body = (case ds of c # r \<Rightarrow> if c = 43 \<or> c = 45 then r else ds | [] \<Rightarrow> ds)
      in if body \<noteq> [] \<and> list_all is_digit body
         then Some ((if neg then - 1 else 1) * int (digits_value body))
         else None)"

definition ExponentPart_opt :: "jsstring \<Rightarrow> int option" where
  "ExponentPart_opt r =
     (case r of
        [] \<Rightarrow> Some 0
      | c # ds \<Rightarrow> if c = 101 \<or> c = 69 then SignedInteger ds else None)"

definition StrUnsignedDecimalLiteral :: "bool \<Rightarrow> jsstring \<Rightarrow> number" where
  "StrUnsignedDecimalLiteral neg s =
     (if s = js ''Infinity'' then signed_infinity neg
      else
        let ip = takeWhile is_digit s;
            r = dropWhile is_digit s;
            dot = (case r of c # _ \<Rightarrow> c = 46 | [] \<Rightarrow> False);
            fp = (if dot then takeWhile is_digit (tl r) else []);
            r' = (if dot then dropWhile is_digit (tl r) else r)
        in if ip = [] \<and> fp = [] then NaN
           else case ExponentPart_opt r' of
                  None \<Rightarrow> NaN
                | Some e \<Rightarrow> decimal neg (digits_value (ip @ fp)) (e - int (length fp)))"

definition StringToNumber :: "jsstring \<Rightarrow> number" where
  "StringToNumber str =
     (let t = trim str
      in if t = [] then Fin 0
         else case NonDecimalIntegerLiteral t of
                Some n \<Rightarrow> n
              | None \<Rightarrow>
                  (case t of
                     c # r \<Rightarrow>
                       if c = 43 then StrUnsignedDecimalLiteral False r
                       else if c = 45 then StrUnsignedDecimalLiteral True r
                       else StrUnsignedDecimalLiteral False t
                   | [] \<Rightarrow> Fin 0))"

section \<open>The numeric normalizer\<close>

text \<open>
  \<^verbatim>\<open>
  const num = (v) => {
    if (v === null || v === undefined || v === '') return 0;
    if (typeof v === 'number') return isFinite(v) ? v : 0;
    const cleaned = String(v).replace(/[^\d.\-\+eE]/g, '');
    const parsed = Number(cleaned);
    return isNaN(parsed) ? 0 : parsed;
  };
  \<close>
  The character class keeps the digits \<^verbatim>\<open>0\<close> to \<^verbatim>\<open>9\<close> (code units 48 to 57), the dot
  (46), the minus (45), the plus (43) and the letters \<^verbatim>\<open>e\<close> (101) and \<^verbatim>\<open>E\<close> (69); the
  global replace deletes every other code unit. \<open>None\<close> is the \<^verbatim>\<open>TypeError\<close> that
  \<^verbatim>\<open>String(v)\<close> can throw.
\<close>

definition numeric_char :: "jschar \<Rightarrow> bool" where
  "numeric_char c \<longleftrightarrow> is_digit c \<or> c = 46 \<or> c = 45 \<or> c = 43 \<or> c = 101 \<or> c = 69"

definition strip_non_numeric :: "jsstring \<Rightarrow> jsstring" where
  "strip_non_numeric s = filter numeric_char s"

definition num :: "jsval \<Rightarrow> number option" where
  "num v =
     (if v = JNull \<or> v = JUndefined \<or> v = JStr [] then Some (Fin 0)
      else case v of
             JNum n \<Rightarrow> Some (if isFinite n then n else Fin 0)
           | _ \<Rightarrow>
               (case ToString v of
                  None \<Rightarrow> None
                | Some str \<Rightarrow>
                    let cleaned = strip_non_numeric str;
                        parsed = StringToNumber cleaned
                    in Some (if isNaN parsed then Fin 0 else parsed)))"

text \<open>
  \<^verbatim>\<open>Math.round\<close>: the nearest integer, a tie going towards \<open>+\<infinity>\<close>; a result of zero
  from a negative argument is \<open>-0\<close>; infinities, zeros and \<^verbatim>\<open>NaN\<close> are returned as they
  are.
\<close>

definition Math_round :: "number \<Rightarrow> number" where
  "Math_round x =
     (case x of
        Fin q \<Rightarrow> (let r = \<lfloor>q + 1 / 2\<rfloor> in if r = 0 \<and> q < 0 then NegZero else Fin (of_int r))
      | _ \<Rightarrow> x)"

section \<open>The row normalizer\<close>

text \<open>
  \<^verbatim>\<open>
  const normalizePortfolioRow = (s) => {
    const price =
      s.price ?? s.current_price ?? s.entry_price ?? s.avg_price ?? s.ltp ?? 0;
    const stopLoss =
      s.stop_loss ?? s.stoploss ?? s.sl ?? s.stop ?? 0;
    const alloc =
      s.percentage_allocation ?? s.allocation_pct ?? s.alloc_percent ?? s.allocation ?? 0;
    const shares =
      s.number_of_shares ?? s.shares ?? s.qty ?? s.quantity ?? 0;
    const risk =
      s.risk ?? s.risk_amount ?? s.max_risk ?? 0;

    return {
      symbol: s.symbol || s.ticker || '',
      company: s.company || s.name || '',
      score: num(s.score),
      price: num(price),
      stop_loss: num(stopLoss),
      percentage_allocation: num(alloc),
      number_of_shares: Math.round(num(shares)),
      risk: num(risk),
      investment_amount: num(s.investment_amount)
    };
  };
  \<close>
  Both operators associate to the left. The object literal evaluates its properties in
  order, so the first \<^verbatim>\<open>num\<close> that throws ends the call.
\<close>

record portfolio_row =
  symbol :: jsval
  company :: jsval
  score :: number
  price :: number
  stop_loss :: number
  percentage_allocation :: number
  number_of_shares :: number
  risk :: number
  investment_amount :: number

definition zero :: jsval where
  "zero = JNum (Fin 0)"

definition normalizePortfolioRow :: "object \<Rightarrow> portfolio_row option" where
  "normalizePortfolioRow s =
     (let price_raw =
            nullish (nullish (nullish (nullish (nullish (Get s ''price'')
              (Get s ''current_price'')) (Get s ''entry_price'')) (Get s ''avg_price''))
              (Get s ''ltp'')) zero;
          stopLoss =
            nullish (nullish (nullish (nullish (Get s ''stop_loss'')
              (Get s ''stoploss'')) (Get s ''sl'')) (Get s ''stop'')) zero;
          alloc =
            nullish (nullish (nullish (nullish (Get s ''percentage_allocation'')
              (Get s ''allocation_pct'')) (Get s ''alloc_percent'')) (Get s ''allocation''))
              zero;
          shares =
            nullish (nullish (nullish (nullish (Get s ''number_of_shares'')
              (Get s ''shares'')) (Get s ''qty'')) (Get s ''quantity'')) zero;
          risk_raw =
            nullish (nullish (nullish (Get s ''risk'')
              (Get s ''risk_amount'')) (Get s ''max_risk'')) zero
      in do {
        score_v \<leftarrow> num (Get s ''score'');
        price_v \<leftarrow> num price_raw;
        stop_loss_v \<leftarrow> num stopLoss;
        alloc_v \<leftarrow> num alloc;
        shares_v \<leftarrow> num shares;
        risk_v \<leftarrow> num risk_raw;
        investment_v \<leftarrow> num (Get s ''investment_amount'');
        Some \<lparr> symbol = logical_or (logical_or (Get s ''symbol'') (Get s ''ticker'')) (JStr []),
               company = logical_or (logical_or (Get s ''company'') (Get s ''name'')) (JStr []),
               score = score_v,
               price = price_v,
               stop_loss = stop_loss_v,
               percentage_allocation = alloc_v,
               number_of_shares = Math_round shares_v,
               risk = risk_v,
               investment_amount = investment_v \<rparr>
      })"

section \<open>The fetch client\<close>

text \<open>
  \<^verbatim>\<open>
  const useApi = (url, options = {}) => {
    const [data, setData] = useState(null);
    const [loading, setLoading] = useState(false);
    const [error, setError] = useState(null);

    const execute = useCallback(async (body = null) => {
      setLoading(true);
      setError(null);
      try {
        const fetchOptions = { ...options,
          headers: { 'Content-Type': 'application/json', ...options.headers } };
        if (body) fetchOptions.body = JSON.stringify(body);
        const response = await fetch(`${API_BASE_URL}${url}`, fetchOptions);
        const result = await response.json();
        if (!result.success) throw new Error(result.error || 'An unknown error occurred');
        setData(result.data);
        return { success: true, data: result.data };
      } catch (err) {
        setError(err.message);
        return { success: false, error: err.message };
      } finally {
        setLoading(false);
      }
    }, [url, JSON.stringify(options)]);

    return { data, loading, error, execute };
  };
  \<close>
  The hook's state is a record of the three \<^verbatim>\<open>useState\<close> cells. A call of
  \<^verbatim>\<open>execute\<close> runs in two uninterrupted pieces on the event loop: everything up to the
  first \<^verbatim>\<open>await\<close> (\<open>begin_request\<close>), and, once the awaited promises have settled,
  everything after them (\<open>complete_request\<close>); no state is written in between.

  What the awaited part delivers is an \<open>outcome\<close>. \<open>Throws m\<close>: an \<^verbatim>\<open>Error\<close> with
  message \<open>m\<close> is thrown inside the \<^verbatim>\<open>try\<close> block before the success test; that is
  \<^verbatim>\<open>fetch\<close> rejecting (a \<^verbatim>\<open>TypeError\<close> or \<^verbatim>\<open>DOMException\<close>), \<^verbatim>\<open>response.json()\<close>
  rejecting (a \<^verbatim>\<open>SyntaxError\<close>), \<^verbatim>\<open>JSON.stringify\<close> throwing, or the read of
  \<^verbatim>\<open>result.success\<close> on a body that is \<^verbatim>\<open>null\<close>. \<open>Envelope r\<close>: the body parsed to
  a value with own properties \<open>r\<close> (an array or a primitive body has none of the three
  properties read, like the empty object).
\<close>

record api_state =
  data :: jsval
  loading :: bool
  error :: jsval

datatype outcome = Throws jsstring | Envelope object

definition useApi :: api_state where
  "useApi = \<lparr> data = JNull, loading = False, error = JNull \<rparr>"

definition begin_request :: "api_state \<Rightarrow> api_state" where
  "begin_request st = st \<lparr> loading := True, error := JNull \<rparr>"

definition unknown_error :: jsstring where
  "unknown_error = js ''An unknown error occurred''"

text \<open>
  The message of \<^verbatim>\<open>new Error(result.error || 'An unknown error occurred')\<close>: the
  argument converted to a string. Should that conversion throw, the \<^verbatim>\<open>catch\<close> clause
  receives the engine's \<^verbatim>\<open>TypeError\<close> instead (the text below is V8's).
\<close>

definition cannot_convert :: jsstring where
  "cannot_convert = js ''Cannot convert object to primitive value''"

definition error_message :: "object \<Rightarrow> jsstring" where
  "error_message result =
     (case ToString (logical_or (Get result ''error'') (JStr unknown_error)) of
        Some m \<Rightarrow> m
      | None \<Rightarrow> cannot_convert)"

definition failed :: "jsstring \<Rightarrow> api_state \<Rightarrow> api_state \<times> jsval" where
  "failed m st =
     (st \<lparr> error := JStr m, loading := False \<rparr>,
      JObj [(''success'', JBool False), (''error'', JStr m)])"

definition complete_request :: "outcome \<Rightarrow> api_state \<Rightarrow> api_state \<times> jsval" where
  "complete_request out st =
     (case out of
        Throws m \<Rightarrow> failed m st
      | Envelope result \<Rightarrow>
          if \<not> ToBoolean (Get result ''success'') then failed (error_message result) st
          else (st \<lparr> data := Get result ''data'', loading := False \<rparr>,
                JObj [(''success'', JBool True), (''data'', Get result ''data'')]))"

text \<open>One call of \<^verbatim>\<open>execute\<close> with nothing else running in between.\<close>

definition execute :: "outcome \<Rightarrow> api_state \<Rightarrow> api_state \<times> jsval" where
  "execute out st = complete_request out (begin_request st)"

subsection \<open>Overlapping calls\<close>

text \<open>
  The event loop interleaves the pieces of several calls. A trace lists, in the order
  they run, the invocations and the settlements, each tagged with the number of its
  call; \<open>pending\<close> holds the calls in flight. A trace that settles a call not in flight,
  or reuses the number of one that is, is not a run of the program (\<open>None\<close>).
\<close>

datatype event = Invoke nat | Settle nat outcome

record client =
  hook :: api_state
  pending :: "nat list"

fun step :: "event \<Rightarrow> client \<Rightarrow> client option" where
  "step (Invoke i) c =
     (if i \<in> set (pending c) then None
      else Some \<lparr> hook = begin_request (hook c), pending = i # pending c \<rparr>)"
| "step (Settle i out) c =
     (if i \<in> set (pending c)
      then Some \<lparr> hook = fst (complete_request out (hook c)), pending = removeAll i (pending c) \<rparr>
      else None)"

fun run :: "event list \<Rightarrow> client \<Rightarrow> client option" where
  "run [] c = Some c"
| "run (e # es) c = (case step e c of None \<Rightarrow> None | Some c' \<Rightarrow> run es c')"

section \<open>The specification's wording\<close>

text \<open>
  The numeric normalizer as the specification words it: an absent value (\<^verbatim>\<open>null\<close>,
  \<^verbatim>\<open>undefined\<close>, the empty string) gives 0; a number is returned if finite, else 0; a
  string loses every character that is not a digit, \<^verbatim>\<open>.\<close>, \<^verbatim>\<open>-\<close>, \<^verbatim>\<open>+\<close>, \<^verbatim>\<open>e\<close> or
  \<^verbatim>\<open>E\<close>, is parsed as a floating-point number, and gives 0 when the parse is not a
  number. The specification names no other kind of raw field.
\<close>

definition kept_characters :: "jschar set" where
  "kept_characters = set (js ''0123456789.-+eE'')"

definition raw_field :: "jsval \<Rightarrow> bool" where
  "raw_field v = (case v of JNull \<Rightarrow> True | JUndefined \<Rightarrow> True | JNum _ \<Rightarrow> True
                   | JStr _ \<Rightarrow> True | _ \<Rightarrow> False)"

fun num_spec :: "jsval \<Rightarrow> number" where
  "num_spec JNull = Fin 0"
| "num_spec JUndefined = Fin 0"
| "num_spec (JNum n) = (if n = NaN \<or> n = PosInf \<or> n = NegInf then Fin 0 else n)"
| "num_spec (JStr s) =
     (if s = [] then Fin 0
      else let p = StringToNumber (filter (\<lambda>c. c \<in> kept_characters) s)
           in if p = NaN then Fin 0 else p)"

text \<open>
  Decoration in the specification's sense: characters that are no part of a number
  written the ordinary way, that is, neither a digit nor a dot nor a sign. A string
  with one numeric substring is such decoration around a literal that parses.
\<close>

definition decoration_char :: "jschar \<Rightarrow> bool" where
  "decoration_char c \<longleftrightarrow> \<not> (is_digit c \<or> c = 46 \<or> c = 45 \<or> c = 43)"

definition one_numeric_substring :: "jsstring \<Rightarrow> jsstring \<Rightarrow> jsstring \<Rightarrow> bool" where
  "one_numeric_substring pre lit post \<longleftrightarrow>
     list_all decoration_char pre \<and> list_all decoration_char post \<and> lit \<noteq> []
     \<and> list_all numeric_char lit \<and> StringToNumber lit \<noteq> NaN"

text \<open>
  The row normalizer as the specification words it: each canonical field probes a fixed
  ordered list of aliases and takes the first one present, that is, not \<^verbatim>\<open>undefined\<close>,
  with a fallback when none is.
\<close>

fun first_present :: "string list \<Rightarrow> object \<Rightarrow> jsval \<Rightarrow> jsval" where
  "first_present [] s d = d"
| "first_present (k # ks) s d =
     (if Get s k = JUndefined then first_present ks s d else Get s k)"

subsection \<open>Alias lists and the probes of the code\<close>

text \<open>
  The two probes the code has: the first alias that is neither \<^verbatim>\<open>null\<close> nor
  \<^verbatim>\<open>undefined\<close>, and the first alias that is truthy.
\<close>

fun first_non_nullish :: "string list \<Rightarrow> object \<Rightarrow> jsval \<Rightarrow> jsval" where
  "first_non_nullish [] s d = d"
| "first_non_nullish (k # ks) s d =
     (if Get s k = JNull \<or> Get s k = JUndefined then first_non_nullish ks s d else Get s k)"

fun first_truthy :: "string list \<Rightarrow> object \<Rightarrow> jsval \<Rightarrow> jsval" where
  "first_truthy [] s d = d"
| "first_truthy (k # ks) s d =
     (if ToBoolean (Get s k) then Get s k else first_truthy ks s d)"

definition price_aliases :: "string list" where
  "price_aliases = [''price'', ''current_price'', ''entry_price'', ''avg_price'', ''ltp'']"

definition stop_loss_aliases :: "string list" where
  "stop_loss_aliases = [''stop_loss'', ''stoploss'', ''sl'', ''stop'']"

definition allocation_aliases :: "string list" where
  "allocation_aliases =
     [''percentage_allocation'', ''allocation_pct'', ''alloc_percent'', ''allocation'']"

definition shares_aliases :: "string list" where
  "shares_aliases = [''number_of_shares'', ''shares'', ''qty'', ''quantity'']"

definition risk_aliases :: "string list" where
  "risk_aliases = [''risk'', ''risk_amount'', ''max_risk'']"

definition is_string :: "jsval \<Rightarrow> bool" where
  "is_string v = (case v of JStr _ \<Rightarrow> True | _ \<Rightarrow> False)"

text \<open>
  A mapping is convertible when \<^verbatim>\<open>String\<close> throws on none of its values: every
  primitive is, and so is every array or object that holds no object with an own
  \<^verbatim>\<open>toString\<close> property.
\<close>

definition convertible :: "object \<Rightarrow> bool" where
  "convertible s = list_all (\<lambda>p. ToString (snd p) \<noteq> None) s"

definition string_or_absent :: "jsval \<Rightarrow> bool" where
  "string_or_absent v \<longleftrightarrow> is_string v \<or> v = JNull \<or> v = JUndefined"

subsection \<open>Example inputs\<close>

text \<open>
  A row as a backend might send it: an empty \<^verbatim>\<open>symbol\<close> beside a \<^verbatim>\<open>ticker\<close>, a
  \<^verbatim>\<open>name\<close> and no \<^verbatim>\<open>company\<close>, both \<^verbatim>\<open>current_price\<close> and a formatted \<^verbatim>\<open>price\<close>, a
  fractional \<^verbatim>\<open>qty\<close>, a \<^verbatim>\<open>stop_loss\<close> of 0 beside a \<^verbatim>\<open>stoploss\<close>, and the score under
  a name the normalizer does not read.
\<close>

definition example_row :: object where
  "example_row =
     [(''ticker'', JStr (js ''TCS'')), (''symbol'', JStr []), (''name'', JStr (js ''Tata'')),
      (''current_price'', JNum (Fin 20)), (''price'', JStr (0x20B9 # js ''1,234.56'')),
      (''qty'', JNum (Fin (5 / 2))), (''stop_loss'', JNum (Fin 0)),
      (''stoploss'', JNum (Fin 7)), (''total_score'', JNum (Fin 88))]"


text \<open>
  A second row, for the contrast between the two kinds of chain: a \<^verbatim>\<open>price\<close> of
  \<^verbatim>\<open>null\<close> beside a \<^verbatim>\<open>current_price\<close>, a \<^verbatim>\<open>stop_loss\<close> of 0 beside a \<^verbatim>\<open>stoploss\<close>, an
  empty \<^verbatim>\<open>symbol\<close> beside a \<^verbatim>\<open>ticker\<close>, and a fractional \<^verbatim>\<open>quantity\<close> as the only
  alias of its field.
\<close>

definition example_row_nulls :: object where
  "example_row_nulls =
     [(''price'', JNull), (''current_price'', JNum (Fin 5)), (''stop_loss'', JNum (Fin 0)),
      (''stoploss'', JNum (Fin 7)), (''symbol'', JStr []), (''ticker'', JStr (js ''TCS'')),
      (''quantity'', JNum (Fin (7 / 2)))]"

subsection \<open>Which alias a chain settles on\<close>

text \<open>
  What each operator passes over: \<^verbatim>\<open>??\<close> passes over \<^verbatim>\<open>null\<close> and \<^verbatim>\<open>undefined\<close>,
  \<^verbatim>\<open>||\<close> passes over every falsy value. \<open>first_kept skip ks s\<close> is the first alias in
  \<open>ks\<close> whose value in \<open>s\<close> is not passed over, if there is one.
\<close>

definition is_nullish :: "jsval \<Rightarrow> bool" where
  "is_nullish v \<longleftrightarrow> v = JNull \<or> v = JUndefined"

definition is_falsy :: "jsval \<Rightarrow> bool" where
  "is_falsy v \<longleftrightarrow> (if ToBoolean v then False else True)"

fun first_kept :: "(jsval \<Rightarrow> bool) \<Rightarrow> string list \<Rightarrow> object \<Rightarrow> string option" where
  "first_kept skip [] s = None"
| "first_kept skip (k # ks) s = (if skip (Get s k) then first_kept skip ks s else Some k)"

subsection \<open>Events that leave the error state alone\<close>


section \<open>Evaluating and reasoning about the parser\<close>

lemmas parse_defs = js_def strip_non_numeric_def numeric_char_def is_digit_def StringToNumber_def
  trim_def is_white_space_def NonDecimalIntegerLiteral_def StrUnsignedDecimalLiteral_def
  ExponentPart_opt_def SignedInteger_def digits_value_def digit_value_def decimal_def
  nearestDouble_def round_at_def floor_log2_def round_half_even_def pow2_def signed_zero_def
  signed_infinity_def bit_length_def bit_length_from.simps

lemma is_digit_iff: "is_digit c \<longleftrightarrow> c \<in> {48, 49, 50, 51, 52, 53, 54, 55, 56, 57}"
proof
  assume "is_digit c"
  then have "48 \<le> unat c" "unat c \<le> 57"
    by (simp_all add: is_digit_def word_le_nat_alt)
  then have "unat c \<in> {48, 49, 50, 51, 52, 53, 54, 55, 56, 57}"
    by simp arith
  moreover have "c = of_nat k" if "unat c = k" for k
    using that by auto
  ultimately show "c \<in> {48, 49, 50, 51, 52, 53, 54, 55, 56, 57}"
    by fastforce
next
  assume "c \<in> {48, 49, 50, 51, 52, 53, 54, 55, 56, 57}"
  then show "is_digit c"
    by (auto simp: is_digit_def)
qed

lemma numeric_char_kept: "numeric_char = (\<lambda>c. c \<in> kept_characters)"
  by (rule ext) (simp add: numeric_char_def is_digit_iff kept_characters_def js_def)

lemma StringToNumber_empty: "StringToNumber [] = Fin 0"
  by (simp add: StringToNumber_def trim_def)

text \<open>The parser on a few strings, as \<^verbatim>\<open>Number\<close> answers in an engine.\<close>

lemma StringToNumber_examples:
  "StringToNumber (js ''12'') = Fin 12"
  "StringToNumber (js ''-.5e1'') = Fin (- 5)"
  "StringToNumber (js ''5.'') = Fin 5"
  "StringToNumber (js ''1.2.3'') = NaN"
  "StringToNumber (js ''-'') = NaN"
  "StringToNumber (js ''e500'') = NaN"
  "StringToNumber (js '' 12 '') = Fin 12"
  "StringToNumber (js ''0x1F'') = Fin 31"
  "StringToNumber (js ''-Infinity'') = NegInf"
  "StringToNumber (js ''-0'') = NegZero"
  "StringToNumber (js ''0.1'') = Fin (3602879701896397 / 2 ^ 55)"
  "StringToNumber (js ''9007199254740993'') = Fin 9007199254740992"
  by (simp_all add: parse_defs radix_digit_def)

text \<open>The literals of the specification's examples, as binary64 values.\<close>

lemma literal_1234_56: "decimal False 123456 (- 2) = Fin (2714826150374277 / 2 ^ 41)"
  by (simp add: parse_defs)

lemma literal_9_9: "decimal False 99 (- 1) = Fin (5573204538870989 / 2 ^ 49)"
  by (simp add: parse_defs)

section \<open>The numeric normalizer: results\<close>

lemma num_never_NaN: "num v = Some n \<Longrightarrow> n \<noteq> NaN"
  by (cases v)
     (auto simp: num_def isFinite_def isNaN_def Let_def split: if_splits option.splits)

lemma num_convertible: "ToString v \<noteq> None \<Longrightarrow> \<exists>n. num v = Some n"
proof -
  assume "ToString v \<noteq> None"
  then obtain str where "ToString v = Some str"
    by auto
  then show ?thesis
    by (cases v) (simp_all add: num_def Let_def del: ToString.simps)
qed

lemma num_absent_or_number_finite:
  "v = JNull \<or> v = JUndefined \<or> v = JStr [] \<or> v = JNum x \<Longrightarrow> \<exists>n. num v = Some n \<and> isFinite n"
  by (auto simp: num_def isFinite_def)

text \<open>
  \<^bold>\<open>C1.\<close> The claim: for every absent, numeric or string input \<^verbatim>\<open>num\<close> returns a finite
  number and never throws. The number branch guards with \<^verbatim>\<open>isFinite\<close>; the string
  branch guards with \<^verbatim>\<open>isNaN\<close> only, and \<^verbatim>\<open>Number\<close> of a literal beyond the binary64
  range is an infinity, which \<^verbatim>\<open>isNaN\<close> lets through. On the string \<^verbatim>\<open>"1e309"\<close> the
  code returns \<^verbatim>\<open>Infinity\<close>.
\<close>

theorem num_string_overflow:
  "num (JStr (js ''1e309'')) = Some PosInf
   \<and> isFinite PosInf = False
   \<and> num (JNum PosInf) = Some (Fin 0)"
  by (simp add: num_def isNaN_def isFinite_def parse_defs)

text \<open>
  \<^bold>\<open>C2.\<close> On every raw field the specification names (\<^verbatim>\<open>null\<close>, \<^verbatim>\<open>undefined\<close>, a
  number, a string) \<^verbatim>\<open>num\<close> returns, and returns what the specification's wording
  computes: 0 for \<^verbatim>\<open>null\<close>, \<^verbatim>\<open>undefined\<close> and the empty string; a finite number
  unchanged and 0 for a non-finite one; for a string, the parse of what is left after
  deleting every character that is not a digit, \<^verbatim>\<open>.\<close>, \<^verbatim>\<open>-\<close>, \<^verbatim>\<open>+\<close>, \<^verbatim>\<open>e\<close> or \<^verbatim>\<open>E\<close>,
  and 0 when that parse is not a number.
\<close>

theorem num_refines_spec: "raw_field v \<Longrightarrow> num v = Some (num_spec v)"
  by (cases v)
     (auto simp: raw_field_def num_def isFinite_def isNaN_def strip_non_numeric_def
        numeric_char_kept Let_def)

theorem num_refines_spec_witness:
  "raw_field (JStr (js ''9.9 %''))
   \<and> num (JStr (js ''9.9 %'')) = Some (num_spec (JStr (js ''9.9 %'')))
   \<and> num_spec (JStr (js ''9.9 %'')) = Fin (5573204538870989 / 2 ^ 49)"
proof -
  have r: "raw_field (JStr (js ''9.9 %''))"
    by (simp add: raw_field_def)
  have "num (JStr (js ''9.9 %'')) = Some (Fin (5573204538870989 / 2 ^ 49))"
    by (simp add: num_def isNaN_def parse_defs)
  with r num_refines_spec [OF r] show ?thesis
    by simp
qed

text \<open>
  \<^bold>\<open>C3.\<close> The claim as stated: decoration that is no part of a number, around one
  numeric substring, does not change the value. It fails where the decoration holds a
  letter \<^verbatim>\<open>e\<close> or \<^verbatim>\<open>E\<close> (or a dot or a sign), which the character class keeps:
  \<^verbatim>\<open>"Price: 500"\<close> is cleaned to \<^verbatim>\<open>"e500"\<close>, which is not a number, and the result is 0.
\<close>

theorem num_decoration_counterexample:
  "one_numeric_substring (js ''Price: '') (js ''500'') []
   \<and> StringToNumber (js ''500'') = Fin 500
   \<and> num (JStr (js ''Price: '' @ js ''500'' @ [])) = Some (Fin 0)"
  by (simp add: one_numeric_substring_def decoration_char_def num_def isNaN_def parse_defs)

text \<open>
  \<^bold>\<open>C3, amended.\<close> For every string \<open>s\<close>, with \<open>lit\<close> the characters of \<open>s\<close> that are
  digits, \<^verbatim>\<open>.\<close>, \<^verbatim>\<open>-\<close>, \<^verbatim>\<open>+\<close>, \<^verbatim>\<open>e\<close> or \<^verbatim>\<open>E\<close>, in their order, \<^verbatim>\<open>num\<close> returns the
  value of \<open>lit\<close> read as a numeric literal, and 0 when \<open>lit\<close> is not one. Decoration
  made of any other characters is ignored wherever it stands: \<^verbatim>\<open>"\<rupee>1,234.56"\<close> gives
  1234.56, \<^verbatim>\<open>"9.9 %"\<close> gives 9.9 and \<^verbatim>\<open>"-"\<close> gives 0.
\<close>

theorem num_ignores_decoration:
  "filter numeric_char s = lit \<Longrightarrow>
     num (JStr s) = Some (if isNaN (StringToNumber lit) then Fin 0 else StringToNumber lit)"
  by (auto simp: num_def strip_non_numeric_def Let_def StringToNumber_empty isNaN_def)

theorem num_ignores_decoration_witness:
  "filter numeric_char (0x20B9 # js ''1,234.56'') = js ''1234.56''
   \<and> num (JStr (0x20B9 # js ''1,234.56'')) = Some (Fin (2714826150374277 / 2 ^ 41))"
proof -
  have f: "filter numeric_char (0x20B9 # js ''1,234.56'') = js ''1234.56''"
    by (simp add: js_def numeric_char_def is_digit_def)
  have "StringToNumber (js ''1234.56'') = Fin (2714826150374277 / 2 ^ 41)"
    by (simp add: parse_defs)
  with f num_ignores_decoration [OF f] show ?thesis
    by (simp add: isNaN_def)
qed

lemma num_percent_example: "num (JStr (js ''9.9 %'')) = Some (Fin (5573204538870989 / 2 ^ 49))"
  by (simp add: num_def isNaN_def parse_defs)

lemma num_dash_example: "num (JStr (js ''-'')) = Some (Fin 0)"
  by (simp add: num_def isNaN_def parse_defs)

section \<open>The row normalizer: results\<close>

lemma nullish_assoc: "nullish (nullish a b) c = nullish a (nullish b c)"
  by (simp add: nullish_def)

lemma logical_or_assoc: "logical_or (logical_or a b) c = logical_or a (logical_or b c)"
  by (simp add: logical_or_def)

lemma first_non_nullish_Cons:
  "first_non_nullish (k # ks) s d = nullish (Get s k) (first_non_nullish ks s d)"
  by (simp add: nullish_def)

lemma first_truthy_Cons:
  "first_truthy (k # ks) s d = logical_or (Get s k) (first_truthy ks s d)"
  by (simp add: logical_or_def)

lemma Get_convertible: "convertible s \<Longrightarrow> ToString (Get s k) \<noteq> None"
proof (cases "map_of s k")
  case None
  then show ?thesis by (simp add: Get_def)
next
  case (Some v)
  assume "convertible s"
  moreover from Some have "(k, v) \<in> set s"
    by (rule map_of_SomeD)
  ultimately have "ToString v \<noteq> None"
    by (auto simp: convertible_def list_all_iff)
  with Some show ?thesis by (simp add: Get_def)
qed

lemma first_non_nullish_convertible:
  "convertible s \<Longrightarrow> ToString d \<noteq> None \<Longrightarrow> ToString (first_non_nullish ks s d) \<noteq> None"
proof (induction ks)
  case Nil
  then show ?case by simp
next
  case (Cons k ks)
  with Get_convertible [of s k] show ?case
    by (simp del: ToString.simps)
qed

lemma num_first_non_nullish:
  "convertible s \<Longrightarrow> \<exists>n. num (first_non_nullish ks s zero) = Some n"
  by (rule num_convertible) (simp add: first_non_nullish_convertible zero_def)

lemma num_Get: "convertible s \<Longrightarrow> \<exists>n. num (Get s k) = Some n"
  by (rule num_convertible) (rule Get_convertible)

text \<open>The chains of \<^verbatim>\<open>??\<close> and \<^verbatim>\<open>||\<close> are probes of alias lists.\<close>

lemma normalizePortfolioRow_chains:
  "normalizePortfolioRow s =
     do {
        score_v \<leftarrow> num (Get s ''score'');
        price_v \<leftarrow> num (first_non_nullish price_aliases s zero);
        stop_loss_v \<leftarrow> num (first_non_nullish stop_loss_aliases s zero);
        alloc_v \<leftarrow> num (first_non_nullish allocation_aliases s zero);
        shares_v \<leftarrow> num (first_non_nullish shares_aliases s zero);
        risk_v \<leftarrow> num (first_non_nullish risk_aliases s zero);
        investment_v \<leftarrow> num (Get s ''investment_amount'');
        Some \<lparr> symbol = first_truthy [''symbol'', ''ticker''] s (JStr []),
               company = first_truthy [''company'', ''name''] s (JStr []),
               score = score_v,
               price = price_v,
               stop_loss = stop_loss_v,
               percentage_allocation = alloc_v,
               number_of_shares = Math_round shares_v,
               risk = risk_v,
               investment_amount = investment_v \<rparr>
      }"
  unfolding normalizePortfolioRow_def Let_def price_aliases_def stop_loss_aliases_def
    allocation_aliases_def shares_aliases_def risk_aliases_def
    first_non_nullish_Cons first_truthy_Cons nullish_assoc logical_or_assoc
  by simp

text \<open>What a returned row holds, and that a convertible mapping gets one.\<close>

lemma normalizePortfolioRow_SomeD:
  assumes "normalizePortfolioRow s = Some r"
  shows "symbol r = first_truthy [''symbol'', ''ticker''] s (JStr [])"
    and "company r = first_truthy [''company'', ''name''] s (JStr [])"
    and "num (Get s ''score'') = Some (score r)"
    and "num (first_non_nullish price_aliases s zero) = Some (price r)"
    and "num (first_non_nullish stop_loss_aliases s zero) = Some (stop_loss r)"
    and "num (first_non_nullish allocation_aliases s zero) = Some (percentage_allocation r)"
    and "\<exists>sh. num (first_non_nullish shares_aliases s zero) = Some sh
           \<and> number_of_shares r = Math_round sh"
    and "num (first_non_nullish risk_aliases s zero) = Some (risk r)"
    and "num (Get s ''investment_amount'') = Some (investment_amount r)"
  using assms unfolding normalizePortfolioRow_chains
  by (auto simp: bind_eq_Some_conv simp del: first_non_nullish.simps first_truthy.simps)

lemma normalizePortfolioRow_returns:
  assumes "convertible s"
  shows "\<exists>r. normalizePortfolioRow s = Some r"
proof -
  obtain sc where 1: "num (Get s ''score'') = Some sc"
    using num_Get [OF assms] by blast
  obtain p where 2: "num (first_non_nullish price_aliases s zero) = Some p"
    using num_first_non_nullish [OF assms] by blast
  obtain sl where 3: "num (first_non_nullish stop_loss_aliases s zero) = Some sl"
    using num_first_non_nullish [OF assms] by blast
  obtain al where 4: "num (first_non_nullish allocation_aliases s zero) = Some al"
    using num_first_non_nullish [OF assms] by blast
  obtain sh where 5: "num (first_non_nullish shares_aliases s zero) = Some sh"
    using num_first_non_nullish [OF assms] by blast
  obtain rk where 6: "num (first_non_nullish risk_aliases s zero) = Some rk"
    using num_first_non_nullish [OF assms] by blast
  obtain inv where 7: "num (Get s ''investment_amount'') = Some inv"
    using num_Get [OF assms] by blast
  show ?thesis
    by (simp add: normalizePortfolioRow_chains 1 2 3 4 5 6 7)
qed

lemma num_single_alias: "num (first_non_nullish [k] s zero) = num (Get s k)"
  by (auto simp: num_def zero_def isFinite_def)

lemma Math_round_zero: "Math_round (Fin 0) = Fin 0"
proof -
  have "\<lfloor>1 / 2 :: rat\<rfloor> = 0"
    by (rule floor_unique) simp_all
  then show ?thesis
    by (simp add: Math_round_def)
qed

lemma Math_round_not_NaN: "x \<noteq> NaN \<Longrightarrow> Math_round x \<noteq> NaN"
  by (cases x) (simp_all add: Math_round_def Let_def)

lemma first_truthy_defined:
  "d \<noteq> JUndefined \<Longrightarrow> d \<noteq> JNull \<Longrightarrow>
     first_truthy ks s d \<noteq> JUndefined \<and> first_truthy ks s d \<noteq> JNull"
  by (induction ks) (auto simp: ToBoolean_def)

lemma first_truthy_strings:
  "string_or_absent (Get s a) \<Longrightarrow> string_or_absent (Get s b) \<Longrightarrow>
     is_string (first_truthy [a, b] s (JStr []))"
  by (auto simp: string_or_absent_def is_string_def ToBoolean_def split: jsval.splits)

lemma example_row_convertible: "convertible example_row"
  by (simp add: convertible_def example_row_def)

lemma example_row_price:
  "num (first_non_nullish price_aliases example_row zero) = Some (Fin (2714826150374277 / 2 ^ 41))"
  by (simp add: price_aliases_def example_row_def Get_def num_def isNaN_def parse_defs)

lemma example_row_shares:
  "num (first_non_nullish shares_aliases example_row zero) = Some (Fin (5 / 2))"
  by (simp add: shares_aliases_def example_row_def Get_def num_def isFinite_def)

text \<open>
  \<^bold>\<open>C4.\<close> The claim as stated takes the first alias that is not \<^verbatim>\<open>undefined\<close>. The
  code's \<^verbatim>\<open>??\<close> also passes over \<^verbatim>\<open>null\<close>: with \<^verbatim>\<open>price\<close> being \<^verbatim>\<open>null\<close> and
  \<^verbatim>\<open>current_price\<close> being 5, the first alias present is \<^verbatim>\<open>price\<close>, whose \<^verbatim>\<open>num\<close> is 0,
  and the code yields 5.
\<close>

theorem normalizePortfolioRow_null_counterexample:
  "map_option price (normalizePortfolioRow [(''price'', JNull), (''current_price'', JNum (Fin 5))])
     = Some (Fin 5)
   \<and> num (first_present price_aliases [(''price'', JNull), (''current_price'', JNum (Fin 5))] zero)
     = Some (Fin 0)"
  by (simp add: normalizePortfolioRow_chains price_aliases_def stop_loss_aliases_def
      allocation_aliases_def shares_aliases_def risk_aliases_def Get_def num_def zero_def
      isFinite_def)

text \<open>
  \<^bold>\<open>C4, amended.\<close> For every input mapping, a row that \<^verbatim>\<open>normalizePortfolioRow\<close> returns
  holds in each numeric field \<^verbatim>\<open>num\<close> of the first value, in the field's fixed alias
  order, that is neither \<^verbatim>\<open>null\<close> nor \<^verbatim>\<open>undefined\<close>, and of 0 when there is none
  (\<^verbatim>\<open>score\<close> and \<^verbatim>\<open>investment_amount\<close> have their own name as only alias);
  \<^verbatim>\<open>number_of_shares\<close> is passed through \<^verbatim>\<open>Math.round\<close> after that; \<^verbatim>\<open>symbol\<close> and
  \<^verbatim>\<open>company\<close> are the first truthy value among their aliases, and the empty string when
  there is none. A row is returned for every mapping whose values convert to strings
  without error.
\<close>

theorem normalizePortfolioRow_fields:
  "(convertible s \<longrightarrow> (\<exists>r. normalizePortfolioRow s = Some r))
   \<and> (\<forall>r. normalizePortfolioRow s = Some r \<longrightarrow>
        symbol r = first_truthy [''symbol'', ''ticker''] s (JStr [])
      \<and> company r = first_truthy [''company'', ''name''] s (JStr [])
      \<and> Some (score r) = num (first_non_nullish [''score''] s zero)
      \<and> Some (price r) = num (first_non_nullish price_aliases s zero)
      \<and> Some (stop_loss r) = num (first_non_nullish stop_loss_aliases s zero)
      \<and> Some (percentage_allocation r) = num (first_non_nullish allocation_aliases s zero)
      \<and> Some (number_of_shares r)
          = map_option Math_round (num (first_non_nullish shares_aliases s zero))
      \<and> Some (risk r) = num (first_non_nullish risk_aliases s zero)
      \<and> Some (investment_amount r) = num (first_non_nullish [''investment_amount''] s zero))"
proof (intro conjI impI allI)
  fix r
  assume r: "normalizePortfolioRow s = Some r"
  show "symbol r = first_truthy [''symbol'', ''ticker''] s (JStr [])"
    and "company r = first_truthy [''company'', ''name''] s (JStr [])"
    using normalizePortfolioRow_SomeD(1,2) [OF r] by blast+
  show "Some (score r) = num (first_non_nullish [''score''] s zero)"
    and "Some (investment_amount r) = num (first_non_nullish [''investment_amount''] s zero)"
    using normalizePortfolioRow_SomeD(3,9) [OF r] by (simp_all only: num_single_alias)
  show "Some (price r) = num (first_non_nullish price_aliases s zero)"
    and "Some (stop_loss r) = num (first_non_nullish stop_loss_aliases s zero)"
    and "Some (percentage_allocation r) = num (first_non_nullish allocation_aliases s zero)"
    and "Some (risk r) = num (first_non_nullish risk_aliases s zero)"
    using normalizePortfolioRow_SomeD(4,5,6,8) [OF r] by simp_all
  show "Some (number_of_shares r)
          = map_option Math_round (num (first_non_nullish shares_aliases s zero))"
    using normalizePortfolioRow_SomeD(7) [OF r] by auto
qed (rule normalizePortfolioRow_returns)

theorem normalizePortfolioRow_fields_witness:
  "convertible example_row
   \<and> map_option symbol (normalizePortfolioRow example_row) = Some (JStr (js ''TCS''))
   \<and> map_option price (normalizePortfolioRow example_row)
       = Some (Fin (2714826150374277 / 2 ^ 41))
   \<and> map_option number_of_shares (normalizePortfolioRow example_row) = Some (Fin 3)"
proof -
  note f = normalizePortfolioRow_fields [of example_row]
  from f example_row_convertible obtain r where r: "normalizePortfolioRow example_row = Some r"
    by blast
  with f have "symbol r = first_truthy [''symbol'', ''ticker''] example_row (JStr [])"
    and "Some (price r) = num (first_non_nullish price_aliases example_row zero)"
    and "Some (number_of_shares r)
          = map_option Math_round (num (first_non_nullish shares_aliases example_row zero))"
    by blast+
  moreover have "first_truthy [''symbol'', ''ticker''] example_row (JStr []) = JStr (js ''TCS'')"
    by (simp add: example_row_def Get_def ToBoolean_def js_def)
  moreover have "Math_round (Fin (5 / 2)) = Fin 3"
    by (simp add: Math_round_def)
  ultimately show ?thesis
    using r example_row_convertible example_row_price example_row_shares by simp
qed

text \<open>
  \<^bold>\<open>C5.\<close> The claim as stated promises a string in \<^verbatim>\<open>symbol\<close> and \<^verbatim>\<open>company\<close> for
  every mapping. The code stores the first truthy alias as it is: a mapping whose
  \<^verbatim>\<open>symbol\<close> is the number 123 gets the number 123 back.
\<close>

theorem normalizePortfolioRow_symbol_counterexample:
  "map_option symbol (normalizePortfolioRow [(''symbol'', JNum (Fin 123))])
     = Some (JNum (Fin 123))
   \<and> is_string (JNum (Fin 123)) = False"
  by (simp add: normalizePortfolioRow_chains price_aliases_def stop_loss_aliases_def
      allocation_aliases_def shares_aliases_def risk_aliases_def Get_def num_def zero_def
      isFinite_def ToBoolean_def is_string_def)

text \<open>
  A value that \<^verbatim>\<open>String\<close> cannot convert makes \<^verbatim>\<open>num\<close>, and with it the normalizer,
  throw.
\<close>

lemma normalizePortfolioRow_raises:
  "normalizePortfolioRow [(''price'', JObj [(''toString'', JNum (Fin 1))])] = None"
  by (simp add: normalizePortfolioRow_chains price_aliases_def Get_def num_def zero_def
      isFinite_def)

text \<open>
  \<^bold>\<open>C5, amended.\<close> For every input mapping whose values convert to strings without
  error, the empty mapping included, \<^verbatim>\<open>normalizePortfolioRow\<close> returns a row; in every
  row it returns \<^verbatim>\<open>symbol\<close> and \<^verbatim>\<open>company\<close> are neither \<^verbatim>\<open>undefined\<close> nor \<^verbatim>\<open>null\<close>, the
  seven numeric fields are numbers other than \<^verbatim>\<open>NaN\<close>, and \<^verbatim>\<open>symbol\<close> (\<^verbatim>\<open>company\<close>) is a
  string whenever the values under \<^verbatim>\<open>symbol\<close> and \<^verbatim>\<open>ticker\<close> (\<^verbatim>\<open>company\<close> and
  \<^verbatim>\<open>name\<close>) are strings, \<^verbatim>\<open>null\<close> or missing.
\<close>

theorem normalizePortfolioRow_defined:
  "(convertible s \<longrightarrow> (\<exists>r. normalizePortfolioRow s = Some r))
   \<and> (\<forall>r. normalizePortfolioRow s = Some r \<longrightarrow>
        symbol r \<noteq> JUndefined \<and> symbol r \<noteq> JNull
      \<and> company r \<noteq> JUndefined \<and> company r \<noteq> JNull
      \<and> score r \<noteq> NaN \<and> price r \<noteq> NaN \<and> stop_loss r \<noteq> NaN
      \<and> percentage_allocation r \<noteq> NaN \<and> number_of_shares r \<noteq> NaN
      \<and> risk r \<noteq> NaN \<and> investment_amount r \<noteq> NaN
      \<and> (string_or_absent (Get s ''symbol'') \<and> string_or_absent (Get s ''ticker'')
            \<longrightarrow> is_string (symbol r))
      \<and> (string_or_absent (Get s ''company'') \<and> string_or_absent (Get s ''name'')
            \<longrightarrow> is_string (company r)))"
proof (intro conjI impI allI)
  fix r
  assume r: "normalizePortfolioRow s = Some r"
  note d = normalizePortfolioRow_SomeD [OF r]
  show "symbol r \<noteq> JUndefined" and "symbol r \<noteq> JNull"
    and "company r \<noteq> JUndefined" and "company r \<noteq> JNull"
    unfolding d(1,2) by (simp_all add: first_truthy_defined del: first_truthy.simps)
  show "score r \<noteq> NaN" and "price r \<noteq> NaN" and "stop_loss r \<noteq> NaN"
    and "percentage_allocation r \<noteq> NaN" and "risk r \<noteq> NaN" and "investment_amount r \<noteq> NaN"
    using d(3,4,5,6,8,9) by (blast dest: num_never_NaN)+
  from d(7) obtain sh where "num (first_non_nullish shares_aliases s zero) = Some sh"
    and sh: "number_of_shares r = Math_round sh"
    by blast
  then have "sh \<noteq> NaN"
    by (blast dest: num_never_NaN)
  then show "number_of_shares r \<noteq> NaN"
    unfolding sh by (rule Math_round_not_NaN)
next
  fix r
  assume r: "normalizePortfolioRow s = Some r"
    and "string_or_absent (Get s ''symbol'') \<and> string_or_absent (Get s ''ticker'')"
  then show "is_string (symbol r)"
    unfolding normalizePortfolioRow_SomeD(1) [OF r] by (blast intro: first_truthy_strings)
next
  fix r
  assume r: "normalizePortfolioRow s = Some r"
    and "string_or_absent (Get s ''company'') \<and> string_or_absent (Get s ''name'')"
  then show "is_string (company r)"
    unfolding normalizePortfolioRow_SomeD(2) [OF r] by (blast intro: first_truthy_strings)
qed (rule normalizePortfolioRow_returns)

theorem normalizePortfolioRow_defined_witness:
  "convertible []
   \<and> normalizePortfolioRow []
       = Some \<lparr> symbol = JStr [], company = JStr [], score = Fin 0, price = Fin 0,
                stop_loss = Fin 0, percentage_allocation = Fin 0, number_of_shares = Fin 0,
                risk = Fin 0, investment_amount = Fin 0 \<rparr>
   \<and> string_or_absent (Get [] ''symbol'') \<and> string_or_absent (Get [] ''ticker'')
   \<and> is_string (JStr [])"
proof -
  let ?row = "\<lparr> symbol = JStr [], company = JStr [], score = Fin 0, price = Fin 0,
                stop_loss = Fin 0, percentage_allocation = Fin 0, number_of_shares = Fin 0,
                risk = Fin 0, investment_amount = Fin 0 \<rparr>"
  have c: "convertible []"
    by (simp add: convertible_def)
  have e: "normalizePortfolioRow [] = Some ?row"
    by (simp add: normalizePortfolioRow_chains price_aliases_def stop_loss_aliases_def
      allocation_aliases_def shares_aliases_def risk_aliases_def Get_def num_def zero_def
      isFinite_def ToBoolean_def Math_round_zero)
  have a: "string_or_absent (Get [] ''symbol'')" "string_or_absent (Get [] ''ticker'')"
    by (simp_all add: Get_def string_or_absent_def)
  with normalizePortfolioRow_defined [of "[]"] e have "is_string (symbol ?row)"
    by blast
  with c e a show ?thesis
    by simp
qed

text \<open>
  \<^bold>\<open>C9.\<close> \<^verbatim>\<open>score\<close> and \<^verbatim>\<open>investment_amount\<close> probe no aliases: for every input
  mapping, the \<^verbatim>\<open>score\<close> of a returned row is \<^verbatim>\<open>num\<close> of the value under the key
  \<^verbatim>\<open>score\<close> and its \<^verbatim>\<open>investment_amount\<close> is \<^verbatim>\<open>num\<close> of the value under the key
  \<^verbatim>\<open>investment_amount\<close>; when that key is missing the field is 0, whatever the mapping
  holds under other names. (A row is returned for every mapping whose values convert
  to strings.)
\<close>

theorem normalizePortfolioRow_score_investment:
  "(convertible s \<longrightarrow> (\<exists>r. normalizePortfolioRow s = Some r))
   \<and> (\<forall>r. normalizePortfolioRow s = Some r \<longrightarrow>
        Some (score r) = num (Get s ''score'')
      \<and> Some (investment_amount r) = num (Get s ''investment_amount'')
      \<and> (Get s ''score'' = JUndefined \<longrightarrow> score r = Fin 0)
      \<and> (Get s ''investment_amount'' = JUndefined \<longrightarrow> investment_amount r = Fin 0))"
proof (intro conjI impI allI)
  fix r
  assume r: "normalizePortfolioRow s = Some r"
  note d = normalizePortfolioRow_SomeD(3,9) [OF r]
  have u: "num JUndefined = Some (Fin 0)"
    by (simp add: num_def)
  show "Some (score r) = num (Get s ''score'')"
    and "Some (investment_amount r) = num (Get s ''investment_amount'')"
    using d by simp_all
  show "score r = Fin 0" if "Get s ''score'' = JUndefined"
    using d(1) that u by simp
  show "investment_amount r = Fin 0" if "Get s ''investment_amount'' = JUndefined"
    using d(2) that u by simp
qed (rule normalizePortfolioRow_returns)

theorem normalizePortfolioRow_score_investment_witness:
  "convertible example_row
   \<and> Get example_row ''total_score'' = JNum (Fin 88)
   \<and> Get example_row ''score'' = JUndefined
   \<and> map_option score (normalizePortfolioRow example_row) = Some (Fin 0)
   \<and> map_option investment_amount (normalizePortfolioRow example_row) = Some (Fin 0)"
proof -
  note f = normalizePortfolioRow_score_investment [of example_row]
  from f example_row_convertible obtain r where r: "normalizePortfolioRow example_row = Some r"
    by blast
  with f have "Get example_row ''score'' = JUndefined \<longrightarrow> score r = Fin 0"
    and "Get example_row ''investment_amount'' = JUndefined \<longrightarrow> investment_amount r = Fin 0"
    by blast+
  moreover have "Get example_row ''total_score'' = JNum (Fin 88)"
    "Get example_row ''score'' = JUndefined"
    "Get example_row ''investment_amount'' = JUndefined"
    by (simp_all add: example_row_def Get_def)
  ultimately show ?thesis
    using r example_row_convertible by simp
qed

lemma first_non_nullish_first_kept:
  "first_non_nullish ks s d = (case first_kept is_nullish ks s of Some k \<Rightarrow> Get s k | None \<Rightarrow> d)"
  by (induction ks) (simp_all add: is_nullish_def)

lemma first_truthy_first_kept:
  "first_truthy ks s d = (case first_kept is_falsy ks s of Some k \<Rightarrow> Get s k | None \<Rightarrow> d)"
  by (induction ks) (simp_all add: is_falsy_def)

lemma num_first_kept:
  "num (first_non_nullish ks s zero)
     = (case first_kept is_nullish ks s of Some k \<Rightarrow> num (Get s k) | None \<Rightarrow> Some (Fin 0))"
  by (simp add: first_non_nullish_first_kept num_def zero_def isFinite_def split: option.split)

text \<open>
  \<^bold>\<open>C10.\<close> \<^verbatim>\<open>symbol\<close> and \<^verbatim>\<open>company\<close> pass over every falsy value, the numeric
  chains pass over \<^verbatim>\<open>null\<close> and \<^verbatim>\<open>undefined\<close> only. In every returned row \<^verbatim>\<open>symbol\<close>
  (\<^verbatim>\<open>company\<close>) is the value of the first alias among \<^verbatim>\<open>symbol\<close>, \<^verbatim>\<open>ticker\<close>
  (\<^verbatim>\<open>company\<close>, \<^verbatim>\<open>name\<close>) that is not falsy, and the empty string when all are; so an
  empty \<^verbatim>\<open>symbol\<close> beside a non-empty \<^verbatim>\<open>ticker\<close> gives the ticker. Each numeric field
  is \<^verbatim>\<open>num\<close> of the first alias in its list that is neither \<^verbatim>\<open>null\<close> nor
  \<^verbatim>\<open>undefined\<close>, and 0 when all are: a first alias that is \<^verbatim>\<open>null\<close> or missing is
  passed over for the next, while one holding any other value, falsy or not, is the
  one converted. (A row is returned for every mapping whose values convert to
  strings.)
\<close>

theorem normalizePortfolioRow_falsy_strings:
  "(convertible s \<longrightarrow> (\<exists>r. normalizePortfolioRow s = Some r))
   \<and> (\<forall>r. normalizePortfolioRow s = Some r \<longrightarrow>
        symbol r = (case first_kept is_falsy [''symbol'', ''ticker''] s of
                      Some k \<Rightarrow> Get s k | None \<Rightarrow> JStr [])
      \<and> company r = (case first_kept is_falsy [''company'', ''name''] s of
                       Some k \<Rightarrow> Get s k | None \<Rightarrow> JStr [])
      \<and> Some (price r) = (case first_kept is_nullish price_aliases s of
                            Some k \<Rightarrow> num (Get s k) | None \<Rightarrow> Some (Fin 0))
      \<and> Some (stop_loss r) = (case first_kept is_nullish stop_loss_aliases s of
                                Some k \<Rightarrow> num (Get s k) | None \<Rightarrow> Some (Fin 0))
      \<and> Some (percentage_allocation r) = (case first_kept is_nullish allocation_aliases s of
                                Some k \<Rightarrow> num (Get s k) | None \<Rightarrow> Some (Fin 0))
      \<and> Some (number_of_shares r) = map_option Math_round
            (case first_kept is_nullish shares_aliases s of
               Some k \<Rightarrow> num (Get s k) | None \<Rightarrow> Some (Fin 0))
      \<and> Some (risk r) = (case first_kept is_nullish risk_aliases s of
                           Some k \<Rightarrow> num (Get s k) | None \<Rightarrow> Some (Fin 0))
      \<and> (Get s ''symbol'' = JStr [] \<and> Get s ''ticker'' = JStr t \<and> t \<noteq> [] \<longrightarrow> symbol r = JStr t)
      \<and> (\<not> ToBoolean (Get s ''symbol'')
            \<longrightarrow> symbol r = logical_or (Get s ''ticker'') (JStr []))
      \<and> (\<not> ToBoolean (Get s ''company'')
            \<longrightarrow> company r = logical_or (Get s ''name'') (JStr []))
      \<and> (\<not> is_nullish (Get s ''price'') \<longrightarrow> Some (price r) = num (Get s ''price''))
      \<and> (is_nullish (Get s ''price'') \<and> \<not> is_nullish (Get s ''current_price'')
            \<longrightarrow> Some (price r) = num (Get s ''current_price''))
      \<and> (\<not> is_nullish (Get s ''stop_loss'')
            \<longrightarrow> Some (stop_loss r) = num (Get s ''stop_loss''))
      \<and> (is_nullish (Get s ''stop_loss'') \<and> \<not> is_nullish (Get s ''stoploss'')
            \<longrightarrow> Some (stop_loss r) = num (Get s ''stoploss''))
      \<and> (\<not> is_nullish (Get s ''percentage_allocation'')
            \<longrightarrow> Some (percentage_allocation r) = num (Get s ''percentage_allocation''))
      \<and> (is_nullish (Get s ''percentage_allocation'') \<and> \<not> is_nullish (Get s ''allocation_pct'')
            \<longrightarrow> Some (percentage_allocation r) = num (Get s ''allocation_pct''))
      \<and> (\<not> is_nullish (Get s ''number_of_shares'')
            \<longrightarrow> Some (number_of_shares r)
                = map_option Math_round (num (Get s ''number_of_shares'')))
      \<and> (is_nullish (Get s ''number_of_shares'') \<and> \<not> is_nullish (Get s ''shares'')
            \<longrightarrow> Some (number_of_shares r) = map_option Math_round (num (Get s ''shares'')))
      \<and> (\<not> is_nullish (Get s ''risk'') \<longrightarrow> Some (risk r) = num (Get s ''risk''))
      \<and> (is_nullish (Get s ''risk'') \<and> \<not> is_nullish (Get s ''risk_amount'')
            \<longrightarrow> Some (risk r) = num (Get s ''risk_amount'')))"
proof (intro conjI impI allI)
  fix r
  assume r: "normalizePortfolioRow s = Some r"
  note d = normalizePortfolioRow_SomeD [OF r]
  show "symbol r = (case first_kept is_falsy [''symbol'', ''ticker''] s of
                      Some k \<Rightarrow> Get s k | None \<Rightarrow> JStr [])"
    unfolding d(1) by (rule first_truthy_first_kept)
  show "company r = (case first_kept is_falsy [''company'', ''name''] s of
                       Some k \<Rightarrow> Get s k | None \<Rightarrow> JStr [])"
    unfolding d(2) by (rule first_truthy_first_kept)
  show p: "Some (price r) = (case first_kept is_nullish price_aliases s of
                            Some k \<Rightarrow> num (Get s k) | None \<Rightarrow> Some (Fin 0))"
    using d(4) by (simp only: num_first_kept)
  show sl: "Some (stop_loss r) = (case first_kept is_nullish stop_loss_aliases s of
                                Some k \<Rightarrow> num (Get s k) | None \<Rightarrow> Some (Fin 0))"
    using d(5) by (simp only: num_first_kept)
  show al: "Some (percentage_allocation r) = (case first_kept is_nullish allocation_aliases s of
                                Some k \<Rightarrow> num (Get s k) | None \<Rightarrow> Some (Fin 0))"
    using d(6) by (simp only: num_first_kept)
  show sh: "Some (number_of_shares r) = map_option Math_round
            (case first_kept is_nullish shares_aliases s of
               Some k \<Rightarrow> num (Get s k) | None \<Rightarrow> Some (Fin 0))"
    using d(7) unfolding num_first_kept by auto
  show rk: "Some (risk r) = (case first_kept is_nullish risk_aliases s of
                           Some k \<Rightarrow> num (Get s k) | None \<Rightarrow> Some (Fin 0))"
    using d(8) by (simp only: num_first_kept)
  show "symbol r = JStr t"
    if "Get s ''symbol'' = JStr [] \<and> Get s ''ticker'' = JStr t \<and> t \<noteq> []"
    using that unfolding d(1) by (simp add: ToBoolean_def)
  show "symbol r = logical_or (Get s ''ticker'') (JStr [])" if "\<not> ToBoolean (Get s ''symbol'')"
    using that unfolding d(1) by (simp add: logical_or_def)
  show "company r = logical_or (Get s ''name'') (JStr [])" if "\<not> ToBoolean (Get s ''company'')"
    using that unfolding d(2) by (simp add: logical_or_def)
  show "Some (price r) = num (Get s ''price'')" if "\<not> is_nullish (Get s ''price'')"
    using p that by (simp add: price_aliases_def)
  show "Some (price r) = num (Get s ''current_price'')"
    if "is_nullish (Get s ''price'') \<and> \<not> is_nullish (Get s ''current_price'')"
    using p that by (simp add: price_aliases_def)
  show "Some (stop_loss r) = num (Get s ''stop_loss'')" if "\<not> is_nullish (Get s ''stop_loss'')"
    using sl that by (simp add: stop_loss_aliases_def)
  show "Some (stop_loss r) = num (Get s ''stoploss'')"
    if "is_nullish (Get s ''stop_loss'') \<and> \<not> is_nullish (Get s ''stoploss'')"
    using sl that by (simp add: stop_loss_aliases_def)
  show "Some (percentage_allocation r) = num (Get s ''percentage_allocation'')"
    if "\<not> is_nullish (Get s ''percentage_allocation'')"
    using al that by (simp add: allocation_aliases_def)
  show "Some (percentage_allocation r) = num (Get s ''allocation_pct'')"
    if "is_nullish (Get s ''percentage_allocation'') \<and> \<not> is_nullish (Get s ''allocation_pct'')"
    using al that by (simp add: allocation_aliases_def)
  show "Some (number_of_shares r) = map_option Math_round (num (Get s ''number_of_shares''))"
    if "\<not> is_nullish (Get s ''number_of_shares'')"
    using sh that by (simp add: shares_aliases_def)
  show "Some (number_of_shares r) = map_option Math_round (num (Get s ''shares''))"
    if "is_nullish (Get s ''number_of_shares'') \<and> \<not> is_nullish (Get s ''shares'')"
    using sh that by (simp add: shares_aliases_def)
  show "Some (risk r) = num (Get s ''risk'')" if "\<not> is_nullish (Get s ''risk'')"
    using rk that by (simp add: risk_aliases_def)
  show "Some (risk r) = num (Get s ''risk_amount'')"
    if "is_nullish (Get s ''risk'') \<and> \<not> is_nullish (Get s ''risk_amount'')"
    using rk that by (simp add: risk_aliases_def)
qed (rule normalizePortfolioRow_returns)


lemma example_row_nulls_convertible: "convertible example_row_nulls"
  by (simp add: convertible_def example_row_nulls_def)

theorem normalizePortfolioRow_falsy_strings_witness:
  "convertible example_row_nulls
   \<and> is_nullish (Get example_row_nulls ''price'')
   \<and> map_option price (normalizePortfolioRow example_row_nulls) = Some (Fin 5)
   \<and> Get example_row_nulls ''stop_loss'' = JNum (Fin 0)
   \<and> is_falsy (Get example_row_nulls ''stop_loss'')
   \<and> map_option stop_loss (normalizePortfolioRow example_row_nulls) = Some (Fin 0)
   \<and> is_falsy (Get example_row_nulls ''symbol'')
   \<and> map_option symbol (normalizePortfolioRow example_row_nulls) = Some (JStr (js ''TCS''))
   \<and> first_kept is_falsy [''company'', ''name''] example_row_nulls = None
   \<and> map_option company (normalizePortfolioRow example_row_nulls) = Some (JStr [])
   \<and> first_kept is_nullish shares_aliases example_row_nulls = Some ''quantity''
   \<and> map_option number_of_shares (normalizePortfolioRow example_row_nulls) = Some (Fin 4)"
proof -
  have g: "Get example_row_nulls ''price'' = JNull"
    "Get example_row_nulls ''current_price'' = JNum (Fin 5)"
    "Get example_row_nulls ''stop_loss'' = JNum (Fin 0)"
    "Get example_row_nulls ''symbol'' = JStr []"
    "Get example_row_nulls ''ticker'' = JStr (js ''TCS'')"
    "Get example_row_nulls ''quantity'' = JNum (Fin (7 / 2))"
    by (simp_all add: example_row_nulls_def Get_def)
  have k: "first_kept is_falsy [''company'', ''name''] example_row_nulls = None"
    "first_kept is_nullish shares_aliases example_row_nulls = Some ''quantity''"
    by (simp_all add: example_row_nulls_def shares_aliases_def Get_def is_falsy_def
        is_nullish_def ToBoolean_def)
  have n: "num (JNum (Fin 5)) = Some (Fin 5)" "num (JNum (Fin 0)) = Some (Fin 0)"
    "num (JNum (Fin (7 / 2))) = Some (Fin (7 / 2))"
    by (simp_all add: num_def isFinite_def)
  have m: "Math_round (Fin (7 / 2)) = Fin 4"
    by (simp add: Math_round_def)
  note f = normalizePortfolioRow_falsy_strings [of example_row_nulls "js ''TCS''"]
  from f [THEN conjunct1] example_row_nulls_convertible
  obtain r where r: "normalizePortfolioRow example_row_nulls = Some r"
    by blast
  note h = f [THEN conjunct2, rule_format, OF r]
  have 1: "is_nullish (Get example_row_nulls ''price'')
        \<and> \<not> is_nullish (Get example_row_nulls ''current_price'')
           \<longrightarrow> Some (price r) = num (Get example_row_nulls ''current_price'')"
    using h by (elim conjE) assumption
  have 2: "\<not> is_nullish (Get example_row_nulls ''stop_loss'')
           \<longrightarrow> Some (stop_loss r) = num (Get example_row_nulls ''stop_loss'')"
    using h by (elim conjE) assumption
  have 3: "Get example_row_nulls ''symbol'' = JStr []
           \<and> Get example_row_nulls ''ticker'' = JStr (js ''TCS'')
           \<and> js ''TCS'' \<noteq> [] \<longrightarrow> symbol r = JStr (js ''TCS'')"
    using h by (elim conjE) assumption
  have 4: "company r = (case first_kept is_falsy [''company'', ''name''] example_row_nulls of
                       Some k \<Rightarrow> Get example_row_nulls k | None \<Rightarrow> JStr [])"
    using h by (elim conjE) assumption
  have 5: "Some (number_of_shares r) = map_option Math_round
            (case first_kept is_nullish shares_aliases example_row_nulls of
               Some k \<Rightarrow> num (Get example_row_nulls k) | None \<Rightarrow> Some (Fin 0))"
    using h by (elim conjE) assumption
  from 1 2 3 4 5 show ?thesis
    using r example_row_nulls_convertible g k n m
    by (simp add: is_nullish_def is_falsy_def ToBoolean_def js_def)
qed

section \<open>The fetch client: results\<close>

lemma run_append:
  "run (es @ fs) c = (case run es c of None \<Rightarrow> None | Some c' \<Rightarrow> run fs c')"
  by (induction es arbitrary: c) (simp_all split: option.splits)








lemma error_message_string:
  "Get r ''error'' = JStr e \<Longrightarrow> e \<noteq> [] \<Longrightarrow> error_message r = e"
  by (simp add: error_message_def logical_or_def ToBoolean_def)

lemma error_message_falsy:
  "\<not> ToBoolean (Get r ''error'') \<Longrightarrow> error_message r = unknown_error"
  by (simp add: error_message_def logical_or_def)

text \<open>
  \<^bold>\<open>C7.\<close> On every failure a call of \<^verbatim>\<open>execute\<close> returns a value (the promise resolves):
  \<^verbatim>\<open>{success: false, error: <message>}\<close>, with \<^verbatim>\<open>loading\<close> false, the \<^verbatim>\<open>error\<close> state equal
  to the message and \<^verbatim>\<open>data\<close> as it was. For a throwing transport or a body that is not
  JSON the message is the thrown one. For an envelope whose \<^verbatim>\<open>success\<close> is falsy it is
  the envelope's \<^verbatim>\<open>error\<close> string, and the generic message when there is none (the
  field is missing, \<^verbatim>\<open>null\<close> or empty).
\<close>

theorem execute_failure:
  "execute (Throws m) st =
     (\<lparr> data = data st, loading = False, error = JStr m \<rparr>,
      JObj [(''success'', JBool False), (''error'', JStr m)])
   \<and> (\<not> ToBoolean (Get r ''success'') \<longrightarrow>
        execute (Envelope r) st =
          (\<lparr> data = data st, loading = False, error = JStr (error_message r) \<rparr>,
           JObj [(''success'', JBool False), (''error'', JStr (error_message r))])
        \<and> (Get r ''error'' = JStr e \<and> e \<noteq> [] \<longrightarrow> error_message r = e)
        \<and> (Get r ''error'' = JUndefined \<or> Get r ''error'' = JNull \<or> Get r ''error'' = JStr []
              \<longrightarrow> error_message r = unknown_error))"
  by (auto simp: execute_def complete_request_def begin_request_def failed_def
      error_message_string error_message_falsy ToBoolean_def)

theorem execute_failure_witness:
  "execute (Throws (js ''Failed to fetch'')) useApi =
     (\<lparr> data = JNull, loading = False, error = JStr (js ''Failed to fetch'') \<rparr>,
      JObj [(''success'', JBool False), (''error'', JStr (js ''Failed to fetch''))])
   \<and> execute (Envelope [(''success'', JBool False), (''error'', JStr (js ''bad symbol''))])
        \<lparr> data = JStr (js ''old''), loading = False, error = JNull \<rparr> =
     (\<lparr> data = JStr (js ''old''), loading = False, error = JStr (js ''bad symbol'') \<rparr>,
      JObj [(''success'', JBool False), (''error'', JStr (js ''bad symbol''))])"
proof -
  let ?r = "[(''success'', JBool False), (''error'', JStr (js ''bad symbol''))]"
  let ?st = "\<lparr> data = JStr (js ''old''), loading = False, error = JNull \<rparr>"
  have g: "\<not> ToBoolean (Get ?r ''success'')" "Get ?r ''error'' = JStr (js ''bad symbol'')"
    "js ''bad symbol'' \<noteq> []"
    by (simp_all add: Get_def ToBoolean_def js_def)
  from execute_failure [of "js ''Failed to fetch''" useApi ?r "js ''bad symbol''"]
    execute_failure [of "js ''Failed to fetch''" ?st ?r "js ''bad symbol''"] g
  show ?thesis
    by (simp add: useApi_def)
qed

lemma complete_request_success:
  "ToBoolean (Get r ''success'') \<Longrightarrow>
     data (fst (complete_request (Envelope r) st)) = Get r ''data''"
  by (simp add: complete_request_def)

text \<open>
  \<^bold>\<open>C8.\<close> Responses are applied in the order they settle, not the order of the calls.
  After any history that leaves two calls \<open>i\<close> and \<open>j\<close> in flight, in whichever order
  they were invoked, a successful response to \<open>j\<close> followed by a successful response
  to \<open>i\<close> both take effect: the data of \<open>j\<close> is visible in between, and the final data
  is that of \<open>i\<close>. Nothing cancels the call that settles last.
\<close>

theorem settlement_order:
  assumes "run es c = Some c1"
    and "i \<in> set (pending c1)" and "j \<in> set (pending c1)" and "i \<noteq> j"
    and "ToBoolean (Get r1 ''success'')" and "ToBoolean (Get r2 ''success'')"
  shows "\<exists>c2 c3. run (es @ [Settle j (Envelope r2)]) c = Some c2
           \<and> data (hook c2) = Get r2 ''data''
           \<and> run (es @ [Settle j (Envelope r2), Settle i (Envelope r1)]) c = Some c3
           \<and> data (hook c3) = Get r1 ''data''"
  using assms by (simp add: run_append complete_request_success)

theorem settlement_order_witness:
  "run [Invoke 1, Invoke 2] \<lparr> hook = useApi, pending = [] \<rparr>
     = Some \<lparr> hook = \<lparr> data = JNull, loading = True, error = JNull \<rparr>, pending = [2, 1] \<rparr>
   \<and> map_option (data \<circ> hook)
        (run ([Invoke 1, Invoke 2]
              @ [Settle 2 (Envelope [(''success'', JBool True), (''data'', JStr (js ''second''))]),
                 Settle 1 (Envelope [(''success'', JBool True), (''data'', JStr (js ''first''))])])
           \<lparr> hook = useApi, pending = [] \<rparr>)
       = Some (JStr (js ''first''))"
proof -
  let ?r1 = "[(''success'', JBool True), (''data'', JStr (js ''first''))]"
  let ?r2 = "[(''success'', JBool True), (''data'', JStr (js ''second''))]"
  let ?c1 = "\<lparr> hook = \<lparr> data = JNull, loading = True, error = JNull \<rparr>, pending = [2, 1] \<rparr>"
  have r: "run [Invoke 1, Invoke 2] \<lparr> hook = useApi, pending = [] \<rparr> = Some ?c1"
    by (simp add: useApi_def begin_request_def)
  have p: "1 \<in> set (pending ?c1)" "2 \<in> set (pending ?c1)" "(1::nat) \<noteq> 2"
    by simp_all
  have t: "ToBoolean (Get ?r1 ''success'')" "ToBoolean (Get ?r2 ''success'')"
    by (simp_all add: Get_def ToBoolean_def)
  have d: "Get ?r1 ''data'' = JStr (js ''first'')"
    by (simp add: Get_def)
  from settlement_order [OF r p t] d r show ?thesis
    by auto
qed
end
